theory Spec2Isabelle
  imports
    Main
    "HOL-Library.Word"
    "HOL-Library.List_Lexorder"
    "HOL-Library.Sublist"
    "HOL-Library.AList"
begin

section \<open>The sidebar index of the coaster_blas documentation\<close>

text \<open>
  The repository holds one file, \<^verbatim>\<open>coaster_blas/sidebar-items.js\<close>, of one line:
  the expression statement \<^verbatim>\<open>initSidebarItems({"macro":[...],"mod":[...]});\<close>.
  The file is modelled as it is written: its syntax as a term of the small fragment of
  JavaScript it uses (string, array and object literals, a reference to a global
  identifier, a call, an expression statement), and its meaning by an evaluator of that
  fragment over an explicit host: the global bindings of the page and the world the
  host's native functions act on.
\<close>

subsection \<open>Strings\<close>

text \<open>
  A JavaScript string is a sequence of UTF-16 code units. The file is ASCII apart from
  U+2019 (the right single quotation mark, in the descriptions of \<open>binary\<close> and
  \<open>operation\<close>), which is the single code unit 0x2019. \<open>js\<close> reads an ASCII
  literal as its code units.
\<close>

type_synonym jsstring = "16 word list"

definition js :: "string \<Rightarrow> jsstring" where
  "js s = map of_char s"

subsection \<open>Values, syntax and errors\<close>

text \<open>
  An object is the list of its own properties in insertion order, which is the order
  JavaScript enumerates string keys in (keys that are array indices would come first;
  the file has none). A native function of the host is a value, known by its handle.
\<close>

datatype jsval =
    Undefined
  | Str jsstring
  | Arr "jsval list"
  | Obj "(jsstring \<times> jsval) list"
  | Native nat

datatype expr =
    StrLit jsstring
  | ArrLit "expr list"
  | ObjLit "(jsstring \<times> expr) list"
  | Ident jsstring
  | Call expr "expr list"

datatype stmt = ExprStmt expr

datatype error =
    ReferenceError jsstring
  | TypeError
  | Thrown jsval

record 'w host =
  globals :: "jsstring \<Rightarrow> jsval option"
  natives :: "nat \<Rightarrow> jsval list \<Rightarrow> 'w \<Rightarrow> error + (jsval \<times> 'w)"

subsection \<open>Evaluation\<close>

text \<open>
  Evaluation goes left to right and stops at the first error. A property defined twice
  in an object literal keeps its first position and takes its last value. A reference to
  an unbound identifier is a ReferenceError; a call resolves the callee, then evaluates
  the arguments, then fails with a TypeError when the callee is not a function.
\<close>

fun eval :: "'w host \<Rightarrow> expr \<Rightarrow> 'w \<Rightarrow> error + (jsval \<times> 'w)"
  and eval_list :: "'w host \<Rightarrow> expr list \<Rightarrow> 'w \<Rightarrow> error + (jsval list \<times> 'w)"
  and eval_props ::
    "'w host \<Rightarrow> (jsstring \<times> expr) list \<Rightarrow> (jsstring \<times> jsval) list \<Rightarrow> 'w
      \<Rightarrow> error + ((jsstring \<times> jsval) list \<times> 'w)"
where
  "eval h (StrLit s) w = Inr (Str s, w)"
| "eval h (ArrLit es) w =
     (case eval_list h es w of
        Inl err \<Rightarrow> Inl err
      | Inr (vs, w1) \<Rightarrow> Inr (Arr vs, w1))"
| "eval h (ObjLit ps) w =
     (case eval_props h ps [] w of
        Inl err \<Rightarrow> Inl err
      | Inr (kvs, w1) \<Rightarrow> Inr (Obj kvs, w1))"
| "eval h (Ident x) w =
     (case globals h x of
        None \<Rightarrow> Inl (ReferenceError x)
      | Some v \<Rightarrow> Inr (v, w))"
| "eval h (Call f args) w =
     (case eval h f w of
        Inl err \<Rightarrow> Inl err
      | Inr (c, w1) \<Rightarrow>
          (case eval_list h args w1 of
             Inl err \<Rightarrow> Inl err
           | Inr (vs, w2) \<Rightarrow>
               (case c of
                  Native n \<Rightarrow> natives h n vs w2
                | _ \<Rightarrow> Inl TypeError)))"
| "eval_list h [] w = Inr ([], w)"
| "eval_list h (e # es) w =
     (case eval h e w of
        Inl err \<Rightarrow> Inl err
      | Inr (v, w1) \<Rightarrow>
          (case eval_list h es w1 of
             Inl err \<Rightarrow> Inl err
           | Inr (vs, w2) \<Rightarrow> Inr (v # vs, w2)))"
| "eval_props h [] acc w = Inr (acc, w)"
| "eval_props h ((k, e) # ps) acc w =
     (case eval h e w of
        Inl err \<Rightarrow> Inl err
      | Inr (v, w1) \<Rightarrow> eval_props h ps (AList.update k v acc) w1)"

fun exec :: "'w host \<Rightarrow> stmt \<Rightarrow> 'w \<Rightarrow> error + 'w" where
  "exec h (ExprStmt e) w =
     (case eval h e w of
        Inl err \<Rightarrow> Inl err
      | Inr (v, w1) \<Rightarrow> Inr w1)"

fun run :: "'w host \<Rightarrow> stmt list \<Rightarrow> 'w \<Rightarrow> error + 'w" where
  "run h [] w = Inr w"
| "run h (s # ss) w =
     (case exec h s w of
        Inl err \<Rightarrow> Inl err
      | Inr w1 \<Rightarrow> run h ss w1)"

subsection \<open>The file\<close>

definition macro_literal :: expr where
  "macro_literal = ArrLit
     [ArrLit [StrLit (js ''iblas_asum_for_cuda''), StrLit (js ''asum with cuda'')],
      ArrLit [StrLit (js ''iblas_axpy_for_cuda''), StrLit (js ''axpy with cuda'')],
      ArrLit [StrLit (js ''iblas_copy_for_cuda''), StrLit (js ''copy for cuda'')],
      ArrLit [StrLit (js ''iblas_dot_for_cuda''), StrLit (js ''dot product for cuda'')],
      ArrLit [StrLit (js ''iblas_gbmv_for_cuda''), StrLit (js ''gbmv for cuda'')],
      ArrLit [StrLit (js ''iblas_gemm_for_cuda''), StrLit (js ''gemm for cuda'')],
      ArrLit [StrLit (js ''iblas_nrm2_for_cuda''), StrLit (js ''nrm2 for cuda'')],
      ArrLit [StrLit (js ''iblas_scal_for_cuda''), StrLit (js ''scalar mul for cuda'')],
      ArrLit [StrLit (js ''iblas_swap_for_cuda''), StrLit (js ''swap matrices for cuda'')]]"

definition mod_literal :: expr where
  "mod_literal = ArrLit
     [ArrLit [StrLit (js ''binary''),
        StrLit (js ''Provides the IBlasBinary binary trait for Coaster'' @ [0x2019] @
                js ''s Framework implementation.'')],
      ArrLit [StrLit (js ''frameworks''),
        StrLit (js ''Provides the specific Framework implementations for the Library Operations.'')],
      ArrLit [StrLit (js ''operation''),
        StrLit (js ''Provides the IOperationX operation traits for Coaster'' @ [0x2019] @
                js ''s Framework implementation.'')],
      ArrLit [StrLit (js ''plugin''),
        StrLit (js ''Provides the IBlas library trait for Coaster implementation.'')],
      ArrLit [StrLit (js ''transpose''),
        StrLit (js ''Provides the Transpose functionality for Matrix operations.'')]]"

definition sidebar_literal :: expr where
  "sidebar_literal = ObjLit [(js ''macro'', macro_literal), (js ''mod'', mod_literal)]"

definition program :: "stmt list" where
  "program = [ExprStmt (Call (Ident (js ''initSidebarItems'')) [sidebar_literal])]"

subsection \<open>The object the literal denotes\<close>

text \<open>
  The value of the object literal, written out. Lemma \<open>eval_sidebar_literal\<close> below
  shows that evaluating \<open>sidebar_literal\<close> yields exactly this value, in every host and
  world. The properties of the index are stated of the value that the evaluation of the
  literal yields and that the program passes, and proved by evaluating the literal and
  the program, not of this constant.
\<close>

definition macro_items :: jsval where
  "macro_items = Arr
     [Arr [Str (js ''iblas_asum_for_cuda''), Str (js ''asum with cuda'')],
      Arr [Str (js ''iblas_axpy_for_cuda''), Str (js ''axpy with cuda'')],
      Arr [Str (js ''iblas_copy_for_cuda''), Str (js ''copy for cuda'')],
      Arr [Str (js ''iblas_dot_for_cuda''), Str (js ''dot product for cuda'')],
      Arr [Str (js ''iblas_gbmv_for_cuda''), Str (js ''gbmv for cuda'')],
      Arr [Str (js ''iblas_gemm_for_cuda''), Str (js ''gemm for cuda'')],
      Arr [Str (js ''iblas_nrm2_for_cuda''), Str (js ''nrm2 for cuda'')],
      Arr [Str (js ''iblas_scal_for_cuda''), Str (js ''scalar mul for cuda'')],
      Arr [Str (js ''iblas_swap_for_cuda''), Str (js ''swap matrices for cuda'')]]"

definition mod_items :: jsval where
  "mod_items = Arr
     [Arr [Str (js ''binary''),
        Str (js ''Provides the IBlasBinary binary trait for Coaster'' @ [0x2019] @
             js ''s Framework implementation.'')],
      Arr [Str (js ''frameworks''),
        Str (js ''Provides the specific Framework implementations for the Library Operations.'')],
      Arr [Str (js ''operation''),
        Str (js ''Provides the IOperationX operation traits for Coaster'' @ [0x2019] @
             js ''s Framework implementation.'')],
      Arr [Str (js ''plugin''),
        Str (js ''Provides the IBlas library trait for Coaster implementation.'')],
      Arr [Str (js ''transpose''),
        Str (js ''Provides the Transpose functionality for Matrix operations.'')]]"

definition sidebar_items :: jsval where
  "sidebar_items = Obj [(js ''macro'', macro_items), (js ''mod'', mod_items)]"

subsection \<open>Reading a value\<close>

text \<open>
  What a consumer of the index can observe of a value: its own keys in order, the value
  under a key, and a category read as a sequence of [name, description] pairs.
  \<open>entry_of\<close> accepts exactly a two-element array of two strings, and \<open>entries\<close> is
  \<open>None\<close> unless the key is present and every element under it is such an entry.
\<close>

fun props :: "jsval \<Rightarrow> (jsstring \<times> jsval) list" where
  "props (Obj kvs) = kvs"
| "props v = []"

definition own_keys :: "jsval \<Rightarrow> jsstring list" where
  "own_keys v = map fst (props v)"

definition get_prop :: "jsval \<Rightarrow> jsstring \<Rightarrow> jsval option" where
  "get_prop v k = map_of (props v) k"

fun entry_of :: "jsval \<Rightarrow> (jsstring \<times> jsstring) option" where
  "entry_of (Arr [Str n, Str d]) = Some (n, d)"
| "entry_of v = None"

fun entries_of :: "jsval \<Rightarrow> (jsstring \<times> jsstring) list option" where
  "entries_of (Arr es) = those (map entry_of es)"
| "entries_of v = None"

definition entries :: "jsval \<Rightarrow> jsstring \<Rightarrow> (jsstring \<times> jsstring) list option" where
  "entries v k = (case get_prop v k of None \<Rightarrow> None | Some a \<Rightarrow> entries_of a)"

text \<open>
  The line terminators of JavaScript: line feed (the newline character), carriage
  return, line separator and paragraph separator. A one-line text is non-empty and has
  none of them.
\<close>

definition line_terminator :: "16 word \<Rightarrow> bool" where
  "line_terminator c \<longleftrightarrow> c = 0x0A \<or> c = 0x0D \<or> c = 0x2028 \<or> c = 0x2029"

definition one_line :: "jsstring \<Rightarrow> bool" where
  "one_line d \<longleftrightarrow> d \<noteq> [] \<and> list_all (\<lambda>c. \<not> line_terminator c) d"

text \<open>The name of the macro that binds a BLAS operation for CUDA.\<close>

definition cuda_macro :: "string \<Rightarrow> jsstring" where
  "cuda_macro operation = js ''iblas_'' @ js operation @ js ''_for_cuda''"

text \<open>
  An expression built from string, array and object literals only: it has no identifier
  to look up and no call to make.
\<close>

fun literal :: "expr \<Rightarrow> bool"
  and literals :: "expr list \<Rightarrow> bool"
  and literal_props :: "(jsstring \<times> expr) list \<Rightarrow> bool"
where
  "literal (StrLit s) = True"
| "literal (ArrLit es) = literals es"
| "literal (ObjLit ps) = literal_props ps"
| "literal (Ident x) = False"
| "literal (Call f args) = False"
| "literals [] = True"
| "literals (e # es) = (literal e \<and> literals es)"
| "literal_props [] = True"
| "literal_props ((k, e) # ps) = (literal e \<and> literal_props ps)"

text \<open>
  What the file passes to \<open>initSidebarItems\<close>, observed: in the logging host the name is
  bound to a native function that appends the list of its arguments to a log and returns
  \<open>undefined\<close>. \<open>initSidebarItems_calls p\<close> is the log that running \<open>p\<close> from the
  empty log leaves: one argument list for each call, in the order of the calls.
\<close>

definition logging_host :: "jsval list list host" where
  "logging_host =
     \<lparr>globals = [js ''initSidebarItems'' \<mapsto> Native 0],
      natives = (\<lambda>n args log. Inr (Undefined, log @ [args]))\<rparr>"

definition initSidebarItems_calls :: "stmt list \<Rightarrow> error + jsval list list" where
  "initSidebarItems_calls p = run logging_host p []"

section \<open>Properties\<close>

subsection \<open>Evaluating the literal\<close>

lemma js_macro_neq_mod: "js ''macro'' \<noteq> js ''mod''"
  by (simp add: js_def)

lemma eval_macro_literal: "eval h macro_literal w = Inr (macro_items, w)"
  by (simp add: macro_literal_def macro_items_def)

lemma eval_mod_literal: "eval h mod_literal w = Inr (mod_items, w)"
  by (simp add: mod_literal_def mod_items_def)

lemma eval_sidebar_literal: "eval h sidebar_literal w = Inr (sidebar_items, w)"
  by (simp add: sidebar_literal_def sidebar_items_def eval_macro_literal eval_mod_literal
      js_macro_neq_mod)

text \<open>
  A literal expression evaluates to a value in every host and leaves the world as it
  was: none of its evaluation steps has an error branch.
\<close>

lemma literal_eval:
  "literal e \<Longrightarrow> \<exists>v. eval h e w = Inr (v, w)"
  "literals es \<Longrightarrow> \<exists>vs. eval_list h es w = Inr (vs, w)"
  "literal_props ps \<Longrightarrow> \<exists>kvs. eval_props h ps acc w = Inr (kvs, w)"
proof (induction e and es and ps arbitrary: and and acc
    rule: literal_literals_literal_props.induct)
  case (2 es)
  then obtain vs where "eval_list h es w = Inr (vs, w)" by auto
  then show ?case by simp
next
  case (3 ps)
  then obtain kvs where "eval_props h ps [] w = Inr (kvs, w)" by fastforce
  then show ?case by simp
next
  case (7 e es)
  then obtain v vs where "eval h e w = Inr (v, w)" "eval_list h es w = Inr (vs, w)" by auto
  then show ?case by simp
next
  case (9 k e ps)
  then obtain v where v: "eval h e w = Inr (v, w)" by auto
  from 9 obtain kvs where "eval_props h ps (AList.update k v acc) w = Inr (kvs, w)"
    by fastforce
  with v show ?case by simp
qed simp_all

subsection \<open>The shape of the index\<close>

text \<open>
  Each property of the index is stated of the object \<open>v\<close> that the object literal of
  the file evaluates to (in every host \<open>h\<close> and world \<open>w\<close>) and that the program
  passes to \<open>initSidebarItems\<close>: the log of the calls is the one argument list \<open>[v]\<close>.
  Each proof evaluates the literal and the program of the file.
\<close>

text \<open>
  C1. The object passed to \<open>initSidebarItems\<close> has the keys \<open>macro\<close> and \<open>mod\<close>, and
  the value under each is an array (an ordered sequence) whose elements are each a
  two-element array of two strings.
\<close>

theorem sidebar_has_macro_and_mod_entry_lists:
  "\<exists>v ms ds.
     eval h sidebar_literal w = Inr (v, w) \<and>
     initSidebarItems_calls program = Inr [[v]] \<and>
     get_prop v (js ''macro'') = Some (Arr ms) \<and>
     get_prop v (js ''mod'') = Some (Arr ds) \<and>
     list_all (\<lambda>e. \<exists>n d. e = Arr [Str n, Str d]) ms \<and>
     list_all (\<lambda>e. \<exists>n d. e = Arr [Str n, Str d]) ds"
  by (simp add: sidebar_literal_def macro_literal_def mod_literal_def
      initSidebarItems_calls_def logging_host_def program_def
      get_prop_def js_def)

text \<open>
  C2. The mapping is flat: the own keys of the object are \<open>macro\<close> and \<open>mod\<close> and no
  other, and every value under a key is a sequence of (name, description) pairs of
  strings, so nothing is nested below a pair.
\<close>

theorem sidebar_is_flat:
  "\<exists>v.
     eval h sidebar_literal w = Inr (v, w) \<and>
     initSidebarItems_calls program = Inr [[v]] \<and>
     own_keys v = [js ''macro'', js ''mod''] \<and>
     list_all (\<lambda>(k, a). entries_of a \<noteq> None) (props v)"
  by (simp add: sidebar_literal_def macro_literal_def mod_literal_def
      initSidebarItems_calls_def logging_host_def program_def
      own_keys_def js_def)

text \<open>
  C3. The listing has a macro entry for each of the BLAS operations asum, axpy, copy, dot
  and gemm, under the name of its CUDA binding, and module entries named binary,
  frameworks, operation, plugin and transpose.
\<close>

theorem sidebar_lists_blas_macros_and_modules:
  "\<exists>v ms ds.
     eval h sidebar_literal w = Inr (v, w) \<and>
     initSidebarItems_calls program = Inr [[v]] \<and>
     entries v (js ''macro'') = Some ms \<and>
     entries v (js ''mod'') = Some ds \<and>
     list_all (\<lambda>operation. cuda_macro operation \<in> fst ` set ms)
       [''asum'', ''axpy'', ''copy'', ''dot'', ''gemm''] \<and>
     list_all (\<lambda>name. js name \<in> fst ` set ds)
       [''binary'', ''frameworks'', ''operation'', ''plugin'', ''transpose'']"
  by (simp add: sidebar_literal_def macro_literal_def mod_literal_def
      initSidebarItems_calls_def logging_host_def program_def
      entries_def get_prop_def cuda_macro_def js_def)

text \<open>
  C4. Every description is one line of text: under \<open>macro\<close> and under \<open>mod\<close>, the
  second element of every entry is a non-empty string with no newline character (and no
  other line terminator).
\<close>

theorem sidebar_descriptions_one_line:
  "\<exists>v ms ds.
     eval h sidebar_literal w = Inr (v, w) \<and>
     initSidebarItems_calls program = Inr [[v]] \<and>
     entries v (js ''macro'') = Some ms \<and>
     entries v (js ''mod'') = Some ds \<and>
     list_all (\<lambda>(n, d). one_line d) ms \<and>
     list_all (\<lambda>(n, d). one_line d) ds"
  by (simp add: sidebar_literal_def macro_literal_def mod_literal_def
      initSidebarItems_calls_def logging_host_def program_def
      entries_def get_prop_def js_def one_line_def
      line_terminator_def)

subsection \<open>The program\<close>

text \<open>
  C5. The program is one application of the initialization routine to one constant
  object. Running the file resolves \<open>initSidebarItems\<close> and calls it once, with the
  object as its only argument: the outcome of the run is the outcome of that call, its
  result dropped. When the name is unbound or is not bound to a function the run fails
  and the world is not touched. Nothing else is computed or changed.
\<close>

theorem program_is_one_call:
  "run h program w =
     (case globals h (js ''initSidebarItems'') of
        None \<Rightarrow> Inl (ReferenceError (js ''initSidebarItems''))
      | Some (Native n) \<Rightarrow>
          (case natives h n [sidebar_items] w of
             Inl err \<Rightarrow> Inl err
           | Inr (r, w1) \<Rightarrow> Inr w1)
      | Some v \<Rightarrow> Inl TypeError)"
  by (simp add: program_def eval_sidebar_literal split: option.split jsval.split sum.split)

text \<open>
  In a host whose \<open>initSidebarItems\<close> appends its argument list to a log, the run of the
  file from the empty log leaves one call in it, with the object as sole argument.
\<close>

theorem program_is_one_call_witness:
  "run \<lparr>globals = [js ''initSidebarItems'' \<mapsto> Native 0],
        natives = (\<lambda>n args log. Inr (Undefined, log @ [args]))\<rparr> program []
   = Inr [[sidebar_items]]"
  using program_is_one_call
    [of "\<lparr>globals = [js ''initSidebarItems'' \<mapsto> Native 0],
          natives = (\<lambda>n args log. Inr (Undefined, log @ [args]))\<rparr>" "[]"]
  by simp

text \<open>
  C6. Constructing the sidebar object cannot fail. The object literal is built from
  literals only (no identifier lookup, no call, no guard, no arithmetic), and its
  evaluation returns a value, never an error, in every host and world, which it leaves
  unchanged.
\<close>

theorem sidebar_literal_cannot_fail:
  "literal sidebar_literal \<and> (\<exists>v. eval h sidebar_literal w = Inr (v, w))"
proof -
  have "literal sidebar_literal"
    by (simp add: sidebar_literal_def macro_literal_def mod_literal_def)
  then show ?thesis
    by (simp add: literal_eval(1))
qed

text \<open>
  C7. The sidebar data is deterministic. The literal reads no input: any two
  evaluations of it, in any two hosts and from any two worlds (of any two types),
  produce the identical object, with the same keys and the same entries in the same
  order.
\<close>

theorem sidebar_literal_deterministic:
  "map_sum id fst (eval h1 sidebar_literal w1) = map_sum id fst (eval h2 sidebar_literal w2)"
  by (simp add: eval_sidebar_literal)

subsection \<open>Names\<close>

text \<open>
  C8. Within each category the names are in strictly ascending lexicographic order (the
  order of JavaScript strings, by code units): each name is less than the next, so no
  two adjacent names are equal or out of order.
\<close>

theorem sidebar_names_strictly_ascending:
  "\<exists>v ms ds.
     eval h sidebar_literal w = Inr (v, w) \<and>
     initSidebarItems_calls program = Inr [[v]] \<and>
     entries v (js ''macro'') = Some ms \<and>
     entries v (js ''mod'') = Some ds \<and>
     sorted_wrt (<) (map fst ms) \<and>
     sorted_wrt (<) (map fst ds)"
  by (simp add: sidebar_literal_def macro_literal_def mod_literal_def
      initSidebarItems_calls_def logging_host_def program_def
      entries_def get_prop_def js_def)

text \<open>
  C9. Every macro name follows the naming pattern of the CUDA bindings: it starts with
  \<open>iblas_\<close> and ends with \<open>_for_cuda\<close>.
\<close>

theorem macro_names_cuda_pattern:
  "\<exists>v ms.
     eval h sidebar_literal w = Inr (v, w) \<and>
     initSidebarItems_calls program = Inr [[v]] \<and>
     entries v (js ''macro'') = Some ms \<and>
     list_all (\<lambda>(n, d). prefix (js ''iblas_'') n \<and> suffix (js ''_for_cuda'') n) ms"
  by (simp add: sidebar_literal_def macro_literal_def mod_literal_def
      initSidebarItems_calls_def logging_host_def program_def
      entries_def get_prop_def js_def suffix_to_prefix)

text \<open>
  C10. The index has exactly 9 entries under \<open>macro\<close> and exactly 5 under \<open>mod\<close>, and
  within each category the names are pairwise distinct.
\<close>

theorem sidebar_entry_counts_distinct:
  "\<exists>v ms ds.
     eval h sidebar_literal w = Inr (v, w) \<and>
     initSidebarItems_calls program = Inr [[v]] \<and>
     entries v (js ''macro'') = Some ms \<and>
     entries v (js ''mod'') = Some ds \<and>
     length ms = 9 \<and> distinct (map fst ms) \<and>
     length ds = 5 \<and> distinct (map fst ds)"
  by (simp add: sidebar_literal_def macro_literal_def mod_literal_def
      initSidebarItems_calls_def logging_host_def program_def
      entries_def get_prop_def js_def)

end
